theory Spec2Isabelle
  imports Main "HOL-Library.Sublist"
begin

section \<open>The scan-pair application: session, duplicate-guarded save, history, export\<close>

text \<open>
  The development embeds \<^verbatim>\<open>src/types.ts\<close>, \<^verbatim>\<open>src/services/geminiService.ts\<close>
  (lines 6-25) and the component of \<^verbatim>\<open>src/App.tsx\<close> (lines 31-293 and the buttons of
  lines 355-449). The React state cells of the component are the fields of one record;
  every handler is a function from that record to the updated one. The list of the
  network requests sent so far is one more field, so that what a handler sends can be
  stated. What the outside answers (the store, the annotation model, the decoder, the
  clock) is an argument of the handler that asks.

  Strings are \<^typ>\<open>string\<close>: one \<^typ>\<open>char\<close> per UTF-16 code unit of the source, code
  units below 256 only. \<^verbatim>\<open>string | null\<close> is \<^typ>\<open>string option\<close>.
\<close>

subsection \<open>types.ts\<close>

datatype ScanTarget = PART_NUMBER | UNIQUE_CODE

record ScanSession =
  partNumber :: "string option"
  uniqueCode :: "string option"

datatype sync_status = pending | synced

text \<open>
  \<^verbatim>\<open>ScannedRecord\<close>. Its fields carry the prefix \<open>rec_\<close> because \<open>partNumber\<close> and
  \<open>uniqueCode\<close> already name the fields of the session, and \<open>id\<close> the identity function.
\<close>

record ScannedRecord =
  rec_id :: string
  rec_partNumber :: string
  rec_uniqueCode :: string
  rec_timestamp :: string
  rec_status :: sync_status
  rec_analysis :: "string option"

subsection \<open>JavaScript values\<close>

text \<open>\<^verbatim>\<open>!s\<close> for \<^verbatim>\<open>s : string | null\<close>: null and the empty string are falsy.\<close>

definition falsy :: "string option \<Rightarrow> bool" where
  "falsy s = (case s of None \<Rightarrow> True | Some t \<Rightarrow> t = [])"

text \<open>\<^verbatim>\<open>s || d\<close> for \<^verbatim>\<open>s : string | undefined\<close>.\<close>

definition or_else :: "string option \<Rightarrow> string \<Rightarrow> string" where
  "or_else s d = (case s of None \<Rightarrow> d | Some t \<Rightarrow> if t = [] then d else t)"

text \<open>
  \<^verbatim>\<open>String.prototype.trim\<close>: drops the white space and line terminators at both ends.
  Below code unit 256 these are TAB, LF, VT, FF, CR, SPACE and NBSP.
\<close>

definition isWhiteSpace :: "char \<Rightarrow> bool" where
  "isWhiteSpace c = (c \<in> set [CHR 0x09, CHR 0x0A, CHR 0x0B, CHR 0x0C, CHR 0x0D, CHR 0x20, CHR 0xA0])"

definition trim :: "string \<Rightarrow> string" where
  "trim s = rev (dropWhile isWhiteSpace (rev (dropWhile isWhiteSpace s)))"

text \<open>\<^verbatim>\<open>s.includes(sub)\<close>: \<open>sub\<close> starts some suffix of \<open>s\<close>.\<close>

definition str_includes :: "string \<Rightarrow> string \<Rightarrow> bool" where
  "str_includes s sub = list_ex (prefix sub) (suffixes s)"

text \<open>
  A thrown value, as far as the handlers look at it: \<^verbatim>\<open>name\<close> and \<^verbatim>\<open>message\<close>.
  A call that may throw returns \<open>js_error + 'a\<close>, \<open>Inl\<close> the thrown value.
\<close>

record js_error =
  err_name :: string
  err_message :: "string option"

subsection \<open>Notifications\<close>

text \<open>
  The \<^verbatim>\<open>error\<close> and \<^verbatim>\<open>success\<close> cells hold one of a fixed set of message constants or
  null. Several of the constants are Bengali text; each constant of App.tsx is one
  constructor here:
  \<^item> \<open>ScanBothCodes\<close>: line 205, "please scan both codes";
  \<^item> \<open>DuplicateCode\<close>: line 220, "duplicate code: this serial has been used before";
  \<^item> \<open>CloudSendFailed\<close>: line 254, "problem sending the data to the cloud, check the internet";
  \<^item> \<open>SavedOk\<close>: line 251, "saved successfully";
  \<^item> \<open>LoadFailed\<close>: line 66; \<open>RecordDeleted\<close>: line 271; \<open>DeleteFailed\<close>: line 274;
  \<^item> \<open>ReportGenerated\<close>: line 289; \<open>ReportError\<close>: line 291;
  \<^item> \<open>ScannerAreaError\<close>: line 110; \<open>CameraNoAccess\<close>: line 177;
    \<open>CameraPermission\<close>: line 180; \<open>CameraNotFound\<close>: line 182; \<open>CameraInUse\<close>: line 184.
\<close>

datatype notice =
    ScanBothCodes
  | DuplicateCode
  | CloudSendFailed
  | SavedOk
  | LoadFailed
  | RecordDeleted
  | DeleteFailed
  | ReportGenerated
  | ReportError
  | ScannerAreaError
  | CameraNoAccess
  | CameraPermission
  | CameraNotFound
  | CameraInUse

subsection \<open>The remote table and its client\<close>

text \<open>A row of \<^verbatim>\<open>scanned_records\<close>: the columns \<^verbatim>\<open>id, part_number, unique_code, timestamp, analysis\<close>.\<close>

record row =
  row_id :: string
  part_number :: string
  unique_code :: string
  row_timestamp :: string
  row_analysis :: "string option"

text \<open>
  The error object of an answer of the store client, as far as any handler looks at it:
  its \<^verbatim>\<open>code\<close> (\<^verbatim>\<open>'23505'\<close> is the violation of a uniqueness constraint). An answer is
  the pair \<^verbatim>\<open>{ data, error }\<close>.
\<close>

record db_error =
  err_code :: string

type_synonym 'a answer = "'a option \<times> db_error option"

text \<open>The requests a handler sends over the network, in the order sent.\<close>

datatype request =
    SelectAll
  | SelectByUniqueCode string
  | Annotate string string
  | Insert row
  | DeleteById string

definition isInsert :: "request \<Rightarrow> bool" where
  "isInsert q = (case q of Insert r \<Rightarrow> True | _ \<Rightarrow> False)"

text \<open>The requests that write to the table: only these can change what it holds.\<close>

definition isWrite :: "request \<Rightarrow> bool" where
  "isWrite q = (case q of Insert r \<Rightarrow> True | DeleteById rid \<Rightarrow> True | _ \<Rightarrow> False)"

text \<open>
  Modelled from the spec: the answer of the store to the duplicate query, \<^emph>\<open>select where
  uniqueCode = X limit 1\<close> (section 6), when the query reaches a store that holds the rows
  \<open>t\<close>. The store is not among the sources.
\<close>

definition store_find :: "row list \<Rightarrow> string \<Rightarrow> row answer" where
  "store_find t code = (find (\<lambda>r. unique_code r = code) t, None)"

subsection \<open>The component state\<close>

text \<open>
  A decoder object of the library. \<open>running\<close> is its \<^verbatim>\<open>isScanning\<close>; \<open>cb_target\<close> is
  the \<^verbatim>\<open>target\<close> that the success callback handed to its \<^verbatim>\<open>start\<close> closes over.
\<close>

record Html5Qrcode =
  running :: bool
  cb_target :: ScanTarget

text \<open>
  Lines 33-42 of App.tsx, then what lives outside the React state: every decoder object
  constructed so far, in the order of construction (\<^verbatim>\<open>scannerRef.current\<close> is null or
  holds one of them, given by its position); the targets of the timers of line 106 that
  have not fired yet, in the order set; the requests sent so far.
\<close>

record world =
  records :: "ScannedRecord list"
  session :: ScanSession
  isScanning :: bool
  activeTarget :: ScanTarget
  error :: "notice option"
  success :: "notice option"
  isAnalyzing :: bool
  isLoading :: bool
  scannerRef :: "nat option"
  decoders :: "Html5Qrcode list"
  timers :: "ScanTarget list"
  requests :: "request list"

definition emptySession :: ScanSession where
  "emptySession = \<lparr>partNumber = None, uniqueCode = None\<rparr>"

definition initial :: world where
  "initial =
     \<lparr>records = [], session = emptySession, isScanning = False,
      activeTarget = PART_NUMBER, error = None, success = None, isAnalyzing = False,
      isLoading = True, scannerRef = None, decoders = [], timers = [], requests = []\<rparr>"

definition send :: "request \<Rightarrow> world \<Rightarrow> world" where
  "send q w = w\<lparr>requests := requests w @ [q]\<rparr>"

text \<open>The requests \<open>w'\<close> has sent beyond those of \<open>w\<close>.\<close>

definition sent_since :: "world \<Rightarrow> world \<Rightarrow> request list" where
  "sent_since w w' = drop (length (requests w)) (requests w')"

subsection \<open>geminiService.ts: analyzeScanPair (lines 6-25)\<close>

text \<open>
  \<open>generateContent\<close> stands for \<^verbatim>\<open>ai.models.generateContent\<close> on the prompt built from the
  two codes: it throws, or answers with a response whose \<^verbatim>\<open>text\<close> is a string or undefined.
  The whole body is inside \<^verbatim>\<open>try\<close>; the \<^verbatim>\<open>catch\<close> returns the fallback.
\<close>

definition analyzeScanPair ::
  "(string \<Rightarrow> string \<Rightarrow> js_error + string option) \<Rightarrow> string \<Rightarrow> string \<Rightarrow> js_error + string" where
  "analyzeScanPair generateContent pn uc =
     (case generateContent pn uc of
        Inr response_text \<Rightarrow> Inr (or_else response_text ''Scan verified by AI.'')
      | Inl err \<Rightarrow> Inr ''Verification complete.'')"

subsection \<open>App.tsx: fetchRecords (lines 44-70)\<close>

definition toScannedRecord :: "row \<Rightarrow> ScannedRecord" where
  "toScannedRecord item =
     \<lparr>rec_id = row_id item, rec_partNumber = part_number item,
      rec_uniqueCode = unique_code item, rec_timestamp = row_timestamp item,
      rec_status = synced, rec_analysis = row_analysis item\<rparr>"

text \<open>\<open>reply\<close> is the answer of the store to the select of lines 47-50.\<close>

definition fetchRecords :: "row list answer \<Rightarrow> world \<Rightarrow> world" where
  "fetchRecords reply w =
     (let w1 = send SelectAll (w\<lparr>isLoading := True\<rparr>);
          (data, fetchErr) = reply
      in case fetchErr of
           Some err \<Rightarrow> w1\<lparr>error := Some LoadFailed, isLoading := False\<rparr>
         | None \<Rightarrow>
             w1\<lparr>records := map toScannedRecord (case data of None \<Rightarrow> [] | Some rows \<Rightarrow> rows),
                isLoading := False\<rparr>)"

subsection \<open>App.tsx: the scanner (lines 83-192)\<close>

text \<open>\<^verbatim>\<open>stop()\<close> on the decoder at position \<open>i\<close>: it is not running afterwards.\<close>

definition stopDecoder :: "nat \<Rightarrow> Html5Qrcode list \<Rightarrow> Html5Qrcode list" where
  "stopDecoder i ds =
     (case drop i ds of
        [] \<Rightarrow> ds
      | d # later \<Rightarrow> take i ds @ d\<lparr>running := False\<rparr> # later)"

text \<open>
  Lines 83-97: the decoder held in \<^verbatim>\<open>scannerRef\<close>, if any, is stopped and let go. No
  other decoder is touched.
\<close>

definition stopScanner :: "world \<Rightarrow> world" where
  "stopScanner w =
     (case scannerRef w of
        None \<Rightarrow> w
      | Some i \<Rightarrow>
          w\<lparr>decoders := stopDecoder i (decoders w), scannerRef := None, isScanning := False\<rparr>)"

text \<open>\<^verbatim>\<open>setSession(prev => ({ ...prev, [target]: cleaned }))\<close>.\<close>

definition setSlot :: "ScanTarget \<Rightarrow> string \<Rightarrow> ScanSession \<Rightarrow> ScanSession" where
  "setSlot target v prev =
     (case target of
        PART_NUMBER \<Rightarrow> prev\<lparr>partNumber := Some v\<rparr>
      | UNIQUE_CODE \<Rightarrow> prev\<lparr>uniqueCode := Some v\<rparr>)"

text \<open>\<^verbatim>\<open>session[target]\<close>, and the target that is not \<open>target\<close>.\<close>

definition slot :: "ScanTarget \<Rightarrow> ScanSession \<Rightarrow> string option" where
  "slot target s = (case target of PART_NUMBER \<Rightarrow> partNumber s | UNIQUE_CODE \<Rightarrow> uniqueCode s)"

definition other :: "ScanTarget \<Rightarrow> ScanTarget" where
  "other target = (case target of PART_NUMBER \<Rightarrow> UNIQUE_CODE | UNIQUE_CODE \<Rightarrow> PART_NUMBER)"

text \<open>The success callback of lines 144-148 (and 167-171), closed over \<open>target\<close>.\<close>

definition decodeCallback :: "ScanTarget \<Rightarrow> string \<Rightarrow> world \<Rightarrow> world" where
  "decodeCallback target decodedText w =
     (let cleaned = trim decodedText
      in stopScanner (w\<lparr>session := setSlot target cleaned (session w)\<rparr>))"

text \<open>
  The decoder at position \<open>i\<close> reports a decoded text: it calls the callback it was
  started with, and only while it is running.
\<close>

definition onDecode :: "nat \<Rightarrow> string \<Rightarrow> world \<Rightarrow> world" where
  "onDecode i decodedText w =
     (case drop i (decoders w) of
        [] \<Rightarrow> w
      | scanner # later \<Rightarrow>
          if running scanner then decodeCallback (cb_target scanner) decodedText w else w)"

text \<open>Lines 177-185: the message for a failed fallback start.\<close>

definition cameraNotice :: "js_error \<Rightarrow> notice" where
  "cameraNotice fallbackErr =
     (if err_name fallbackErr = ''NotAllowedError''
         \<or> (case err_message fallbackErr of None \<Rightarrow> False | Some m \<Rightarrow> str_includes m ''Permission'')
      then CameraPermission
      else if err_name fallbackErr = ''NotFoundError'' then CameraNotFound
      else if err_name fallbackErr = ''NotReadableError'' then CameraInUse
      else CameraNoAccess)"

text \<open>
  Lines 99-106 and 191-192: \<^verbatim>\<open>startScanner\<close> up to its \<^verbatim>\<open>setTimeout\<close>. The decoder in
  \<^verbatim>\<open>scannerRef\<close> is stopped, the target and \<^verbatim>\<open>isScanning\<close> are set, and the timer is set;
  a timer already set is not cleared.
\<close>

definition startScanner :: "ScanTarget \<Rightarrow> world \<Rightarrow> world" where
  "startScanner target w =
     (let w1 = stopScanner (w\<lparr>error := None\<rparr>)
      in w1\<lparr>activeTarget := target, isScanning := True, timers := timers w1 @ [target]\<rparr>)"

text \<open>
  What the page and the decoder library do when a timer fires: whether the element
  \<^verbatim>\<open>qr-reader\<close> is in the page, and what the first and the fallback \<^verbatim>\<open>start\<close> do
  (\<open>None\<close>: the camera starts; \<open>Some err\<close>: it throws). With the element in the page the
  constructor of the decoder does not throw.
\<close>

record scanner_env =
  container_present :: bool
  first_start :: "js_error option"
  fallback_start :: "js_error option"

text \<open>
  Lines 106-191: the callback of the oldest timer set. It constructs a new decoder, puts
  it in \<^verbatim>\<open>scannerRef\<close> over whatever was there, and starts it with a callback for the
  \<open>target\<close> of its own \<^verbatim>\<open>startScanner\<close> call; from line 107 to its end it is one step.
\<close>

definition timerFires :: "scanner_env \<Rightarrow> world \<Rightarrow> world" where
  "timerFires e w =
     (case timers w of
        [] \<Rightarrow> w
      | target # later \<Rightarrow>
          let w1 = w\<lparr>timers := later\<rparr>
          in if \<not> container_present e
             then w1\<lparr>isScanning := False, error := Some ScannerAreaError\<rparr>
             else
               let w2 = w1\<lparr>scannerRef := Some (length (decoders w1))\<rparr>
               in case first_start e of
                    None \<Rightarrow> w2\<lparr>decoders := decoders w2 @ [\<lparr>running = True, cb_target = target\<rparr>]\<rparr>
                  | Some err \<Rightarrow>
                      (case fallback_start e of
                         None \<Rightarrow>
                           w2\<lparr>decoders := decoders w2 @ [\<lparr>running = True, cb_target = target\<rparr>]\<rparr>
                       | Some fallbackErr \<Rightarrow>
                           w2\<lparr>decoders := decoders w2 @ [\<lparr>running = False, cb_target = target\<rparr>],
                              error := Some (cameraNotice fallbackErr), isScanning := False\<rparr>))"

text \<open>The camera started: the element was there and one of the two \<^verbatim>\<open>start\<close> calls returned.\<close>

definition started :: "scanner_env \<Rightarrow> bool" where
  "started e = (container_present e \<and> (first_start e = None \<or> fallback_start e = None))"

subsection \<open>App.tsx: generateId (lines 194-201)\<close>

text \<open>
  What the platform offers when an identifier is generated: \<^verbatim>\<open>crypto.randomUUID()\<close> and
  its value; or no such function, with the digits of \<^verbatim>\<open>Date.now()\<close> and the nine
  characters cut from \<^verbatim>\<open>Math.random().toString(36)\<close>; or a throw inside the \<^verbatim>\<open>try\<close>,
  with the digits of \<^verbatim>\<open>Date.now()\<close>.
\<close>

datatype id_source =
    RandomUUID string
  | NoRandomUUID string string
  | CryptoThrows string

definition generateId :: "id_source \<Rightarrow> string" where
  "generateId src =
     (case src of
        RandomUUID u \<Rightarrow> u
      | NoRandomUUID now rnd \<Rightarrow> ''id-'' @ now @ ''-'' @ rnd
      | CryptoThrows now \<Rightarrow> ''id-'' @ now)"

subsection \<open>App.tsx: handleSave (lines 203-258)\<close>

text \<open>
  What the outside does during one save: the answer of the store to the duplicate query
  for a code, what the annotation model does, where identifiers come from, the value of
  \<^verbatim>\<open>new Date().toISOString()\<close>, and the error of the answer of the store to the insert of
  a row (\<open>None\<close>: the row was inserted).
\<close>

record save_env =
  check_reply :: "string \<Rightarrow> row answer"
  generateContent :: "string \<Rightarrow> string \<Rightarrow> js_error + string option"
  ids :: id_source
  clock :: string
  insert_reply :: "row \<Rightarrow> db_error option"

text \<open>Lines 227-233.\<close>

definition newRecord :: "save_env \<Rightarrow> string \<Rightarrow> string \<Rightarrow> string \<Rightarrow> row" where
  "newRecord e pn uc analysis =
     \<lparr>row_id = generateId (ids e), part_number = pn, unique_code = uc,
      row_timestamp = clock e, row_analysis = Some analysis\<rparr>"

text \<open>Lines 241-251: the commit after the insert was acknowledged.\<close>

definition commitRecord :: "row \<Rightarrow> world \<Rightarrow> world" where
  "commitRecord newRecordData w =
     w\<lparr>records :=
          \<lparr>rec_id = row_id newRecordData, rec_partNumber = part_number newRecordData,
           rec_uniqueCode = unique_code newRecordData,
           rec_timestamp = row_timestamp newRecordData, rec_status = synced,
           rec_analysis = row_analysis newRecordData\<rparr> # records w,
       session := emptySession,
       success := Some SavedOk\<rparr>"

text \<open>
  The handler. After the guard of line 204 both slots are non-empty strings, so \<open>the\<close>
  reads them. Line 213 destructures \<^verbatim>\<open>data\<close> only: the error of the duplicate query is
  dropped. A \<^verbatim>\<open>return\<close> or a \<^verbatim>\<open>throw\<close> inside the \<^verbatim>\<open>try\<close> runs the \<^verbatim>\<open>finally\<close> of line
  256; the \<^verbatim>\<open>catch\<close> of lines 252-254 sets the one generic message.
\<close>

definition handleSave :: "save_env \<Rightarrow> world \<Rightarrow> world" where
  "handleSave e w =
     (if falsy (partNumber (session w)) \<or> falsy (uniqueCode (session w))
      then w\<lparr>error := Some ScanBothCodes\<rparr>
      else
        let pn = the (partNumber (session w));
            uc = the (uniqueCode (session w));
            w1 = w\<lparr>isAnalyzing := True, error := None\<rparr>;
            existing = fst (check_reply e uc);
            w2 = send (SelectByUniqueCode uc) w1
        in case existing of
             Some found \<Rightarrow> w2\<lparr>error := Some DuplicateCode, isAnalyzing := False\<rparr>
           | None \<Rightarrow>
               (case analyzeScanPair (generateContent e) pn uc of
                  Inl err \<Rightarrow>
                    (send (Annotate pn uc) w2)\<lparr>error := Some CloudSendFailed, isAnalyzing := False\<rparr>
                | Inr analysis \<Rightarrow>
                    let newRecordData = newRecord e pn uc analysis;
                        insertErr = insert_reply e newRecordData;
                        w3 = send (Insert newRecordData) (send (Annotate pn uc) w2)
                    in case insertErr of
                         Some err \<Rightarrow> w3\<lparr>error := Some CloudSendFailed, isAnalyzing := False\<rparr>
                       | None \<Rightarrow> (commitRecord newRecordData w3)\<lparr>isAnalyzing := False\<rparr>))"

text \<open>
  Lines 405-408: the button that calls the handler is disabled while a slot is empty or
  \<^verbatim>\<open>isAnalyzing\<close> is set, and a disabled button delivers no click.
\<close>

definition saveDisabled :: "world \<Rightarrow> bool" where
  "saveDisabled w =
     (falsy (partNumber (session w)) \<or> falsy (uniqueCode (session w)) \<or> isAnalyzing w)"

definition clickSave :: "save_env \<Rightarrow> world \<Rightarrow> world" where
  "clickSave e w = (if saveDisabled w then w else handleSave e w)"

text \<open>Line 435: the Reset button.\<close>

definition resetSession :: "world \<Rightarrow> world" where
  "resetSession w = w\<lparr>session := emptySession\<rparr>"

subsection \<open>App.tsx: handleSave, one stretch between two awaits at a time\<close>

text \<open>
  The handler is an \<^verbatim>\<open>async\<close> function: it runs to its next \<^verbatim>\<open>await\<close> and gives the
  thread back; when the awaited answer arrives it runs on to the following \<^verbatim>\<open>await\<close> or
  to its end. A suspended invocation keeps its local constants: the two codes of the
  session it read on entry, then the record it built. A request is entered in the list
  of requests when its answer is delivered.
\<close>

datatype suspended =
    AwaitCheck string string
  | AwaitAnalysis string string
  | AwaitInsert row

text \<open>Lines 204-217, up to the first \<^verbatim>\<open>await\<close>.\<close>

definition handleSave_enter :: "world \<Rightarrow> world \<times> suspended option" where
  "handleSave_enter w =
     (if falsy (partNumber (session w)) \<or> falsy (uniqueCode (session w))
      then (w\<lparr>error := Some ScanBothCodes\<rparr>, None)
      else (w\<lparr>isAnalyzing := True, error := None\<rparr>,
            Some (AwaitCheck (the (partNumber (session w))) (the (uniqueCode (session w))))))"

text \<open>Lines 219-225, 227-237 and 239-257: from one answer to the next \<^verbatim>\<open>await\<close> or the end.\<close>

definition handleSave_resume :: "save_env \<Rightarrow> suspended \<Rightarrow> world \<Rightarrow> world \<times> suspended option" where
  "handleSave_resume e k w =
     (case k of
        AwaitCheck pn uc \<Rightarrow>
          (let existing = fst (check_reply e uc);
               w2 = send (SelectByUniqueCode uc) w
           in case existing of
                Some found \<Rightarrow> (w2\<lparr>error := Some DuplicateCode, isAnalyzing := False\<rparr>, None)
              | None \<Rightarrow> (w2, Some (AwaitAnalysis pn uc)))
      | AwaitAnalysis pn uc \<Rightarrow>
          (case analyzeScanPair (generateContent e) pn uc of
             Inl err \<Rightarrow>
               ((send (Annotate pn uc) w)\<lparr>error := Some CloudSendFailed, isAnalyzing := False\<rparr>, None)
           | Inr analysis \<Rightarrow>
               (send (Annotate pn uc) w, Some (AwaitInsert (newRecord e pn uc analysis))))
      | AwaitInsert newRecordData \<Rightarrow>
          (let insertErr = insert_reply e newRecordData;
               w3 = send (Insert newRecordData) w
           in case insertErr of
                Some err \<Rightarrow> (w3\<lparr>error := Some CloudSendFailed, isAnalyzing := False\<rparr>, None)
              | None \<Rightarrow> ((commitRecord newRecordData w3)\<lparr>isAnalyzing := False\<rparr>, None)))"

text \<open>One invocation alone: every answer is delivered before anything else happens.\<close>

fun resumeAll :: "nat \<Rightarrow> save_env \<Rightarrow> world \<times> suspended option \<Rightarrow> world \<times> suspended option" where
  "resumeAll 0 e s = s"
| "resumeAll (Suc n) e (w, None) = (w, None)"
| "resumeAll (Suc n) e (w, Some k) = resumeAll n e (handleSave_resume e k w)"

text \<open>
  Two invocations of the handler entered one right after the other, before any answer
  has arrived (a raw double invocation); then the answers arrive in the order \<open>turns\<close>
  gives, each resuming the invocation it belongs to.
\<close>

datatype turn = First | Second

record race =
  shared :: world
  inv1 :: "suspended option"
  inv2 :: "suspended option"

definition deliver :: "save_env \<Rightarrow> save_env \<Rightarrow> race \<Rightarrow> turn \<Rightarrow> race" where
  "deliver e1 e2 r t =
     (case t of
        First \<Rightarrow>
          (case inv1 r of
             None \<Rightarrow> r
           | Some k \<Rightarrow> (let (w, k') = handleSave_resume e1 k (shared r) in r\<lparr>shared := w, inv1 := k'\<rparr>))
      | Second \<Rightarrow>
          (case inv2 r of
             None \<Rightarrow> r
           | Some k \<Rightarrow> (let (w, k') = handleSave_resume e2 k (shared r) in r\<lparr>shared := w, inv2 := k'\<rparr>)))"

definition doubleInvocation :: "save_env \<Rightarrow> save_env \<Rightarrow> turn list \<Rightarrow> world \<Rightarrow> race" where
  "doubleInvocation e1 e2 turns w =
     (let (w1, k1) = handleSave_enter w;
          (w2, k2) = handleSave_enter w1
      in foldl (deliver e1 e2) \<lparr>shared = w2, inv1 = k1, inv2 = k2\<rparr> turns)"

subsection \<open>App.tsx: handleDelete (lines 260-276)\<close>

text \<open>
  What the operator answers to \<^verbatim>\<open>confirm\<close>, and the error of the answer of the store to
  the delete of an identifier.
\<close>

record delete_env =
  confirmed :: bool
  delete_reply :: "string \<Rightarrow> db_error option"

definition handleDelete :: "delete_env \<Rightarrow> string \<Rightarrow> world \<Rightarrow> world" where
  "handleDelete e rid w =
     (if \<not> confirmed e then w
      else
        let delErr = delete_reply e rid;
            w1 = send (DeleteById rid) w
        in case delErr of
             Some err \<Rightarrow> w1\<lparr>error := Some DeleteFailed\<rparr>
           | None \<Rightarrow>
               w1\<lparr>records := filter (\<lambda>r. rec_id r \<noteq> rid) (records w1),
                  success := Some RecordDeleted\<rparr>)"

subsection \<open>App.tsx: exportToExcel (lines 278-293)\<close>

text \<open>
  An object literal: its keys in insertion order, a value \<open>None\<close> when it is undefined.
  A worksheet: the header row and the data rows, a blank cell \<open>None\<close>.
  \<^verbatim>\<open>XLSX.utils.json_to_sheet\<close> of the spreadsheet library makes one column per key in the
  order the keys first appear, one data row per object, and a blank cell for an undefined
  value; the header row names the columns there are.
\<close>

type_synonym js_object = "(string \<times> string option) list"

record worksheet =
  header :: "string list"
  body :: "string option list list"

definition json_to_sheet :: "js_object list \<Rightarrow> worksheet" where
  "json_to_sheet js =
     (let hdr = fold (\<lambda>k h. if k \<in> set h then h else h @ [k]) (concat (map (map fst) js)) []
      in \<lparr>header = hdr,
          body = map (\<lambda>obj. map (\<lambda>k. case map_of obj k of None \<Rightarrow> None | Some v \<Rightarrow> v) hdr) js\<rparr>)"

text \<open>A workbook: its sheets by name, in order. A written file: its name and the workbook.\<close>

type_synonym workbook = "(string \<times> worksheet) list"

definition book_new :: workbook where
  "book_new = []"

definition book_append_sheet :: "workbook \<Rightarrow> worksheet \<Rightarrow> string \<Rightarrow> workbook" where
  "book_append_sheet wb ws sheet_name = wb @ [(sheet_name, ws)]"

record xlsx_file =
  filename :: string
  book :: workbook

text \<open>
  What the platform does during one export: \<^verbatim>\<open>new Date(ts).toLocaleString()\<close> as a
  function of \<open>ts\<close>, \<^verbatim>\<open>new Date().toISOString()\<close>, and whether writing the file throws.
\<close>

record export_env =
  toLocaleString :: "string \<Rightarrow> string"
  nowISO :: string
  writeFile_throws :: bool

text \<open>\<^verbatim>\<open>s.split('T')[0]\<close>: the part of \<open>s\<close> before its first \<open>T\<close>.\<close>

definition beforeT :: "string \<Rightarrow> string" where
  "beforeT s = takeWhile (\<lambda>c. c \<noteq> CHR ''T'') s"

definition exportRow :: "export_env \<Rightarrow> ScannedRecord \<Rightarrow> js_object" where
  "exportRow e r =
     [(''Part Number'', Some (rec_partNumber r)),
      (''Unique Serial'', Some (rec_uniqueCode r)),
      (''Date & Time'', Some (toLocaleString e (rec_timestamp r))),
      (''Verification'', rec_analysis r)]"

definition exportToExcel :: "export_env \<Rightarrow> world \<Rightarrow> world \<times> xlsx_file option" where
  "exportToExcel e w =
     (let ws = json_to_sheet (map (exportRow e) (records w));
          wb = book_append_sheet book_new ws ''Scanned Records''
      in if writeFile_throws e then (w\<lparr>error := Some ReportError\<rparr>, None)
         else (w\<lparr>success := Some ReportGenerated\<rparr>,
               Some \<lparr>filename = ''XtraPro_Report_'' @ beforeT (nowISO e) @ ''.xlsx'', book = wb\<rparr>))"

subsection \<open>Everything the operator and the outside can do\<close>

datatype action =
    Fetch "row list answer"
  | Start ScanTarget
  | TimerFires scanner_env
  | Stop
  | Decode nat string
  | Save save_env
  | ClickSave save_env
  | Reset
  | Delete delete_env string
  | Export export_env
  | DismissError
  | SuccessTimeout

fun step :: "world \<Rightarrow> action \<Rightarrow> world" where
  "step w (Fetch reply) = fetchRecords reply w"
| "step w (Start target) = startScanner target w"
| "step w (TimerFires e) = timerFires e w"
| "step w Stop = stopScanner w"
| "step w (Decode i decodedText) = onDecode i decodedText w"
| "step w (Save e) = handleSave e w"
| "step w (ClickSave e) = clickSave e w"
| "step w Reset = resetSession w"
| "step w (Delete e rid) = handleDelete e rid w"
| "step w (Export e) = fst (exportToExcel e w)"
| "step w DismissError = w\<lparr>error := None\<rparr>"
| "step w SuccessTimeout = w\<lparr>success := None\<rparr>"

definition run :: "action list \<Rightarrow> world \<Rightarrow> world" where
  "run acts w = foldl step w acts"

subsection \<open>Sample inputs\<close>

text \<open>
  A session with both codes scanned; an outside where the store holds no row, the
  annotation model throws and the insert is acknowledged; a row that holds the serial
  \<open>S123\<close>; the error of a uniqueness violation and the error of a request that was not
  answered.
\<close>

definition pairSession :: ScanSession where
  "pairSession = \<lparr>partNumber = Some ''P1'', uniqueCode = Some ''S123''\<rparr>"

definition pairWorld :: world where
  "pairWorld = initial\<lparr>session := pairSession\<rparr>"

definition uniqueViolation :: db_error where
  "uniqueViolation = \<lparr>err_code = ''23505''\<rparr>"

definition notAnswered :: db_error where
  "notAnswered = \<lparr>err_code = []\<rparr>"

definition quietEnv :: save_env where
  "quietEnv =
     \<lparr>check_reply = (\<lambda>uc. (None, None)),
      generateContent = (\<lambda>pn uc. Inl \<lparr>err_name = ''Error'', err_message = None\<rparr>),
      ids = RandomUUID ''u1'',
      clock = ''2024-01-01T00:00:00.000Z'',
      insert_reply = (\<lambda>r. None)\<rparr>"

definition storedRow :: row where
  "storedRow =
     \<lparr>row_id = ''u0'', part_number = ''P0'', unique_code = ''S123'',
      row_timestamp = ''2023-12-31T00:00:00.000Z'', row_analysis = None\<rparr>"

definition cameraOk :: scanner_env where
  "cameraOk = \<lparr>container_present = True, first_start = None, fallback_start = None\<rparr>"

definition cameraBusy :: scanner_env where
  "cameraBusy =
     \<lparr>container_present = True,
      first_start = Some \<lparr>err_name = ''NotReadableError'', err_message = None\<rparr>,
      fallback_start = Some \<lparr>err_name = ''NotReadableError'', err_message = None\<rparr>\<rparr>"

text \<open>
  A history of one record and an export on the fifth of March 2024; a run of the
  application: the history is loaded, both codes are scanned, the pair is saved.
\<close>

definition sampleRecord :: ScannedRecord where
  "sampleRecord =
     \<lparr>rec_id = ''u1'', rec_partNumber = ''P1'', rec_uniqueCode = ''S123'',
      rec_timestamp = ''2024-01-01T00:00:00.000Z'', rec_status = synced,
      rec_analysis = Some ''Verification complete.''\<rparr>"

definition sampleExport :: export_env where
  "sampleExport =
     \<lparr>toLocaleString = (\<lambda>ts. ''1/1/2024, 12:00:00 AM''),
      nowISO = ''2024-03-05T10:11:12.000Z'',
      writeFile_throws = False\<rparr>"

definition sampleRun :: "action list" where
  "sampleRun =
     [Fetch (Some [storedRow], None),
      Start PART_NUMBER, TimerFires cameraOk, Decode 0 ''P1'',
      Start UNIQUE_CODE, TimerFires cameraOk, Decode 1 '' S124 '',
      Save quietEnv]"

subsection \<open>Notions the properties use\<close>

text \<open>The column names of lines 281-284, in the order of the object literal.\<close>

definition exportColumns :: "string list" where
  "exportColumns = [''Part Number'', ''Unique Serial'', ''Date & Time'', ''Verification'']"

text \<open>Every record of the in-memory history has the status \<open>synced\<close>.\<close>

definition allSynced :: "world \<Rightarrow> bool" where
  "allSynced w = list_all (\<lambda>r. rec_status r = synced) (records w)"

section \<open>Properties\<close>

subsection \<open>Auxiliary facts\<close>

lemmas save_defs = handleSave_def commitRecord_def send_def Let_def

lemmas sample_defs =
  quietEnv_def pairWorld_def pairSession_def initial_def storedRow_def emptySession_def
  uniqueViolation_def notAnswered_def store_find_def falsy_def analyzeScanPair_def
  newRecord_def generateId_def

text \<open>Run alone, the stretches of the handler compose to the handler.\<close>

lemma handleSave_by_stretches: "resumeAll 3 e (handleSave_enter w) = (handleSave e w, None)"
  by (auto simp: numeral_3_eq_3 handleSave_def handleSave_enter_def handleSave_resume_def Let_def
      split: option.splits sum.splits if_splits)

text \<open>What \<open>trim\<close> removes is white space, and what it leaves has none at either end.\<close>

lemma trim_split:
  "dropWhile isWhiteSpace s
     = trim s @ rev (takeWhile isWhiteSpace (rev (dropWhile isWhiteSpace s)))"
proof -
  let ?d = "dropWhile isWhiteSpace s"
  have "trim s @ rev (takeWhile isWhiteSpace (rev ?d))
          = rev (takeWhile isWhiteSpace (rev ?d) @ dropWhile isWhiteSpace (rev ?d))"
    by (simp only: trim_def rev_append)
  also have "\<dots> = rev (rev ?d)"
    by (simp only: takeWhile_dropWhile_id)
  also have "\<dots> = ?d"
    by simp
  finally show ?thesis by simp
qed

lemma trim_decompose:
  "\<exists>a b. s = a @ trim s @ b \<and> list_all isWhiteSpace a \<and> list_all isWhiteSpace b"
proof -
  let ?d = "dropWhile isWhiteSpace s"
  let ?a = "takeWhile isWhiteSpace s"
  let ?b = "rev (takeWhile isWhiteSpace (rev ?d))"
  have "s = ?a @ ?d" by simp
  also have "?d = trim s @ ?b" by (rule trim_split)
  finally have "s = ?a @ trim s @ ?b" .
  moreover have "list_all isWhiteSpace ?a"
    by (simp add: list_all_iff) (meson set_takeWhileD)
  moreover have "list_all isWhiteSpace ?b"
    by (simp add: list_all_iff) (meson set_takeWhileD)
  ultimately show ?thesis by blast
qed

lemma trim_edges:
  assumes ne: "trim s \<noteq> []"
  shows "\<not> isWhiteSpace (hd (trim s)) \<and> \<not> isWhiteSpace (last (trim s))"
proof -
  let ?d = "dropWhile isWhiteSpace s"
  let ?r = "dropWhile isWhiteSpace (rev ?d)"
  from ne have r: "?r \<noteq> []" by (simp add: trim_def)
  then have "\<not> isWhiteSpace (hd ?r)" by (rule hd_dropWhile)
  moreover have "last (trim s) = hd ?r"
    using r by (simp only: trim_def last_rev)
  ultimately have l: "\<not> isWhiteSpace (last (trim s))" by simp
  have dne: "?d \<noteq> []"
  proof
    assume "?d = []"
    then have "?r = []" by (simp only: rev.simps dropWhile.simps)
    with r show False by simp
  qed
  then have hd: "\<not> isWhiteSpace (hd ?d)" by (rule hd_dropWhile)
  have "hd ?d = hd (trim s @ rev (takeWhile isWhiteSpace (rev ?d)))"
    using trim_split [of s] by simp
  with ne have "hd ?d = hd (trim s)" by simp
  with hd l show ?thesis by simp
qed

text \<open>
  One scan with no other timer pending: the start, its timer, then a text decoded by the
  decoder the timer made. The trimmed text is in the slot of the start, scanning has
  stopped, and that decoder is not running.
\<close>

lemma stopDecoder_length: "length (stopDecoder i ds) = length ds"
  by (cases "drop i ds") (auto simp: stopDecoder_def dest: arg_cong [where f = length])

lemma startScanner_keeps:
  "length (decoders (startScanner target w)) = length (decoders w)
   \<and> timers (startScanner target w) = timers w @ [target]
   \<and> session (startScanner target w) = session w"
  by (simp add: startScanner_def stopScanner_def stopDecoder_length Let_def split: option.splits)

lemma timerFires_started:
  assumes "timers w = [target]" and "started e"
  shows "timerFires e w =
           w\<lparr>timers := [], scannerRef := Some (length (decoders w)),
             decoders := decoders w @ [\<lparr>running = True, cb_target = target\<rparr>]\<rparr>"
  using assms by (auto simp: timerFires_def started_def Let_def split: option.splits)

lemma decode_by_held_decoder:
  assumes "scannerRef w = Some (length ds)"
      and "decoders w = ds @ [\<lparr>running = True, cb_target = target\<rparr>]"
  shows "onDecode (length ds) decodedText w =
           w\<lparr>session := setSlot target (trim decodedText) (session w),
             decoders := ds @ [\<lparr>running = False, cb_target = target\<rparr>],
             scannerRef := None, isScanning := False\<rparr>"
  using assms
  by (simp add: onDecode_def decodeCallback_def stopScanner_def stopDecoder_def Let_def)

lemma lone_scan:
  assumes "timers w = []" and "started e"
  shows
    "session (onDecode (length (decoders w)) decodedText (timerFires e (startScanner target w)))
       = setSlot target (trim decodedText) (session w)
     \<and> \<not> isScanning (onDecode (length (decoders w)) decodedText (timerFires e (startScanner target w)))
     \<and> scannerRef (onDecode (length (decoders w)) decodedText (timerFires e (startScanner target w))) = None
     \<and> map running (drop (length (decoders w))
          (decoders (onDecode (length (decoders w)) decodedText (timerFires e (startScanner target w)))))
       = [False]"
proof -
  let ?w1 = "startScanner target w"
  let ?w2 = "timerFires e ?w1"
  from assms(1) have t: "timers ?w1 = [target]"
    by (simp add: startScanner_keeps)
  have n: "length (decoders ?w1) = length (decoders w)"
    by (simp add: startScanner_keeps)
  have w2: "?w2 = ?w1\<lparr>timers := [], scannerRef := Some (length (decoders ?w1)),
                     decoders := decoders ?w1 @ [\<lparr>running = True, cb_target = target\<rparr>]\<rparr>"
    using t assms(2) by (rule timerFires_started)
  have "onDecode (length (decoders ?w1)) decodedText ?w2 =
          ?w2\<lparr>session := setSlot target (trim decodedText) (session ?w2),
              decoders := decoders ?w1 @ [\<lparr>running = False, cb_target = target\<rparr>],
              scannerRef := None, isScanning := False\<rparr>"
    by (rule decode_by_held_decoder) (simp_all add: w2)
  then show ?thesis
    by (simp add: n w2 startScanner_keeps)
qed

lemma slot_setSlot:
  "slot target (setSlot target v s) = Some v
   \<and> slot (other target) (setSlot target v s) = slot (other target) s"
  by (cases target) (simp_all add: slot_def setSlot_def other_def)

text \<open>The worksheet of an export: its header and its rows.\<close>

lemma header_fold_again:
  "fold (\<lambda>k h. if k \<in> set h then h else h @ [k])
     (concat (map (map fst \<circ> exportRow e) rs)) exportColumns = exportColumns"
  by (induction rs) (simp_all add: exportRow_def exportColumns_def)

lemma header_of_export:
  "header (json_to_sheet (map (exportRow e) rs)) = (if rs = [] then [] else exportColumns)"
proof (cases rs)
  case Nil
  then show ?thesis by (simp add: json_to_sheet_def)
next
  case (Cons r rest)
  have "fold (\<lambda>k h. if k \<in> set h then h else h @ [k]) (map fst (exportRow e r)) [] = exportColumns"
    by (simp add: exportRow_def exportColumns_def)
  with Cons show ?thesis
    by (simp add: json_to_sheet_def Let_def header_fold_again)
qed

lemma body_of_export:
  "body (json_to_sheet (map (exportRow e) rs))
     = map (\<lambda>r. [Some (rec_partNumber r), Some (rec_uniqueCode r),
                  Some (toLocaleString e (rec_timestamp r)), rec_analysis r]) rs"
proof (cases "rs = []")
  case True
  then show ?thesis by (simp add: json_to_sheet_def)
next
  case False
  then have h: "header (json_to_sheet (map (exportRow e) rs)) = exportColumns"
    by (simp add: header_of_export)
  have "body (json_to_sheet (map (exportRow e) rs))
          = map (\<lambda>obj. map (\<lambda>k. case map_of obj k of None \<Rightarrow> None | Some v \<Rightarrow> v)
                  (header (json_to_sheet (map (exportRow e) rs)))) (map (exportRow e) rs)"
    by (simp add: json_to_sheet_def Let_def)
  then show ?thesis
    by (simp add: h exportColumns_def exportRow_def)
qed

lemma beforeT_date: "CHR ''T'' \<notin> set d \<Longrightarrow> beforeT (d @ CHR ''T'' # rest) = d"
  by (induction d) (auto simp: beforeT_def)

text \<open>No operation puts a record of another status into the history.\<close>

lemma step_allSynced: "allSynced w \<Longrightarrow> allSynced (step w a)"
  by (cases a)
    (auto simp: allSynced_def list_all_iff fetchRecords_def toScannedRecord_def send_def
      startScanner_def timerFires_def stopScanner_def onDecode_def decodeCallback_def
      clickSave_def resetSession_def handleDelete_def exportToExcel_def save_defs
      split: option.splits sum.splits if_splits prod.splits list.splits)

lemma foldl_allSynced: "allSynced w \<Longrightarrow> allSynced (foldl step w acts)"
  by (induction acts arbitrary: w) (simp_all add: step_allSynced)

subsection \<open>The session after a save\<close>

text \<open>
  Claim C1. Whatever makes a save attempt fail, the session after the handler is the
  session before it, both slots included: when a slot is null or empty (the message of
  line 205); when the duplicate query returns a record (the duplicate message); when
  the insert is answered with an error, whatever the error (the generic message). The
  annotation is no cause of failure: it always yields a text. Conversely the session
  changes only on the one path where both codes are there, the query finds nothing and
  the insert is acknowledged; then the session is the empty one, no error is set, the
  success message is set and the history has one more record. In particular, whenever
  the handler leaves an error message the session is as before.
\<close>

theorem failed_save_keeps_session:
  "(falsy (partNumber (session w)) \<or> falsy (uniqueCode (session w)) \<longrightarrow>
      session (handleSave e w) = session w \<and> error (handleSave e w) = Some ScanBothCodes)
   \<and> (partNumber (session w) = Some pn \<and> pn \<noteq> [] \<and> uniqueCode (session w) = Some uc \<and> uc \<noteq> []
        \<and> fst (check_reply e uc) = Some found \<longrightarrow>
      session (handleSave e w) = session w \<and> error (handleSave e w) = Some DuplicateCode)
   \<and> (partNumber (session w) = Some pn \<and> pn \<noteq> [] \<and> uniqueCode (session w) = Some uc \<and> uc \<noteq> []
        \<and> fst (check_reply e uc) = None
        \<and> analyzeScanPair (generateContent e) pn uc = Inr analysis
        \<and> insert_reply e (newRecord e pn uc analysis) = Some err \<longrightarrow>
      session (handleSave e w) = session w \<and> error (handleSave e w) = Some CloudSendFailed)
   \<and> (\<exists>text. analyzeScanPair (generateContent e) pn uc = Inr text)
   \<and> (session (handleSave e w) \<noteq> session w \<longrightarrow>
        (\<exists>p u a. partNumber (session w) = Some p \<and> p \<noteq> []
           \<and> uniqueCode (session w) = Some u \<and> u \<noteq> []
           \<and> fst (check_reply e u) = None
           \<and> analyzeScanPair (generateContent e) p u = Inr a
           \<and> insert_reply e (newRecord e p u a) = None)
        \<and> error (handleSave e w) = None \<and> success (handleSave e w) = Some SavedOk
        \<and> session (handleSave e w) = emptySession
        \<and> length (records (handleSave e w)) = Suc (length (records w)))
   \<and> (error (handleSave e w) \<noteq> None \<longrightarrow> session (handleSave e w) = session w)"
proof -
  have incomplete:
    "session (handleSave e w) = session w \<and> error (handleSave e w) = Some ScanBothCodes"
    if "falsy (partNumber (session w)) \<or> falsy (uniqueCode (session w))"
    using that by (simp add: handleSave_def)
  have duplicate:
    "session (handleSave e w) = session w \<and> error (handleSave e w) = Some DuplicateCode"
    if "partNumber (session w) = Some pn" "pn \<noteq> []" "uniqueCode (session w) = Some uc" "uc \<noteq> []"
       "fst (check_reply e uc) = Some found"
    using that by (simp add: save_defs falsy_def)
  have refused:
    "session (handleSave e w) = session w \<and> error (handleSave e w) = Some CloudSendFailed"
    if "partNumber (session w) = Some pn" "pn \<noteq> []" "uniqueCode (session w) = Some uc" "uc \<noteq> []"
       "fst (check_reply e uc) = None" "analyzeScanPair (generateContent e) pn uc = Inr analysis"
       "insert_reply e (newRecord e pn uc analysis) = Some err"
    using that by (simp add: save_defs falsy_def)
  have annotated: "\<exists>text. analyzeScanPair (generateContent e) pn uc = Inr text"
    by (simp add: analyzeScanPair_def split: sum.splits)
  have only_success:
    "(\<exists>p u a. partNumber (session w) = Some p \<and> p \<noteq> []
        \<and> uniqueCode (session w) = Some u \<and> u \<noteq> []
        \<and> fst (check_reply e u) = None
        \<and> analyzeScanPair (generateContent e) p u = Inr a
        \<and> insert_reply e (newRecord e p u a) = None)
     \<and> error (handleSave e w) = None \<and> success (handleSave e w) = Some SavedOk
     \<and> session (handleSave e w) = emptySession
     \<and> length (records (handleSave e w)) = Suc (length (records w))"
    if "session (handleSave e w) \<noteq> session w"
    using that
    by (auto simp: save_defs falsy_def split: option.splits sum.splits if_splits)
  have kept: "session (handleSave e w) = session w" if "error (handleSave e w) \<noteq> None"
    using that by (auto simp: save_defs split: option.splits sum.splits if_splits)
  from incomplete duplicate refused annotated only_success kept show ?thesis by blast
qed

text \<open>
  With the serial already in the store the query returns the stored row; with the
  insert refused for uniqueness, or not answered, the insert returns an error; with the
  serial not scanned a slot is empty. In all four attempts the session stays what it
  was. The save that goes through empties it.
\<close>

theorem failed_save_keeps_session_witness:
  "fst (check_reply (quietEnv\<lparr>check_reply := store_find [storedRow]\<rparr>) ''S123'') = Some storedRow
   \<and> session (handleSave (quietEnv\<lparr>check_reply := store_find [storedRow]\<rparr>) pairWorld) = pairSession
   \<and> error (handleSave (quietEnv\<lparr>check_reply := store_find [storedRow]\<rparr>) pairWorld) = Some DuplicateCode
   \<and> session (handleSave (quietEnv\<lparr>insert_reply := (\<lambda>r. Some uniqueViolation)\<rparr>) pairWorld) = pairSession
   \<and> error (handleSave (quietEnv\<lparr>insert_reply := (\<lambda>r. Some uniqueViolation)\<rparr>) pairWorld)
       = Some CloudSendFailed
   \<and> session (handleSave (quietEnv\<lparr>insert_reply := (\<lambda>r. Some notAnswered)\<rparr>) pairWorld) = pairSession
   \<and> session (handleSave quietEnv (pairWorld\<lparr>session := \<lparr>partNumber = Some ''P1'', uniqueCode = None\<rparr>\<rparr>))
       = \<lparr>partNumber = Some ''P1'', uniqueCode = None\<rparr>
   \<and> session (handleSave quietEnv pairWorld) = emptySession
   \<and> error (handleSave quietEnv pairWorld) = None"
  using
    failed_save_keeps_session
      [where e = "quietEnv\<lparr>check_reply := store_find [storedRow]\<rparr>" and w = pairWorld
         and pn = "''P1''" and uc = "''S123''" and found = storedRow
         and analysis = "''Verification complete.''" and err = uniqueViolation]
    failed_save_keeps_session
      [where e = "quietEnv\<lparr>insert_reply := (\<lambda>r. Some uniqueViolation)\<rparr>" and w = pairWorld
         and pn = "''P1''" and uc = "''S123''" and found = storedRow
         and analysis = "''Verification complete.''" and err = uniqueViolation]
    failed_save_keeps_session
      [where e = "quietEnv\<lparr>insert_reply := (\<lambda>r. Some notAnswered)\<rparr>" and w = pairWorld
         and pn = "''P1''" and uc = "''S123''" and found = storedRow
         and analysis = "''Verification complete.''" and err = notAnswered]
    failed_save_keeps_session
      [where e = quietEnv
         and w = "pairWorld\<lparr>session := \<lparr>partNumber = Some ''P1'', uniqueCode = None\<rparr>\<rparr>"
         and pn = "''P1''" and uc = "''S123''" and found = storedRow
         and analysis = "''Verification complete.''" and err = notAnswered]
    failed_save_keeps_session
      [where e = quietEnv and w = pairWorld
         and pn = "''P1''" and uc = "''S123''" and found = storedRow
         and analysis = "''Verification complete.''" and err = notAnswered]
  by (simp add: save_defs sample_defs)

subsection \<open>The duplicate found by the query\<close>

text \<open>
  Claim C2, as the handler has it. When both slots hold non-empty codes, the store holds
  a row whose \<open>unique_code\<close> is the serial of the session, and the duplicate query is
  answered by that store, the handler stops right after the query: the one request it
  sends is the select (no annotation, no insert, no write to the table at all, so the
  number of rows of the table is what it was), the message is the duplicate message of
  line 220, and the state is otherwise unchanged, both slots of the session included.
\<close>

theorem duplicate_found_aborts:
  assumes "\<not> falsy (partNumber (session w))"
      and "uniqueCode (session w) = Some uc" and "uc \<noteq> []"
      and "\<exists>r \<in> set t. unique_code r = uc"
      and "check_reply e uc = store_find t uc"
  shows "handleSave e w =
           w\<lparr>error := Some DuplicateCode, isAnalyzing := False,
             requests := requests w @ [SelectByUniqueCode uc]\<rparr>
         \<and> sent_since w (handleSave e w) = [SelectByUniqueCode uc]
         \<and> filter isWrite (sent_since w (handleSave e w)) = []
         \<and> error (handleSave e w) = Some DuplicateCode
         \<and> session (handleSave e w) = session w"
proof -
  from assms(4) obtain r where "find (\<lambda>r. unique_code r = uc) t = Some r"
    by (cases "find (\<lambda>r. unique_code r = uc) t") (auto simp: find_None_iff)
  with assms show ?thesis
    by (simp add: save_defs store_find_def falsy_def sent_since_def isWrite_def)
qed

theorem duplicate_found_aborts_witness:
  "handleSave (quietEnv\<lparr>check_reply := store_find [storedRow]\<rparr>) pairWorld =
     pairWorld\<lparr>error := Some DuplicateCode, requests := [SelectByUniqueCode ''S123'']\<rparr>"
  using duplicate_found_aborts
    [of pairWorld "''S123''" "[storedRow]" "quietEnv\<lparr>check_reply := store_find [storedRow]\<rparr>"]
  by (simp add: sample_defs)

text \<open>
  The claim as first stated, for every session whose serial is in the store, fails
  twice. With the part number not scanned the guard of line 204 answers with its own
  message, not the duplicate one. With both codes scanned and the row \<open>storedRow\<close> in the
  store, but the duplicate query not answered, line 213 reads \<^verbatim>\<open>data\<close> as null and the
  handler goes on to the annotation and to the insert.
\<close>

theorem duplicate_needs_complete_session_and_answer:
  "unique_code storedRow = ''S123''
   \<and> error (handleSave (quietEnv\<lparr>check_reply := store_find [storedRow]\<rparr>)
            (initial\<lparr>session := \<lparr>partNumber = None, uniqueCode = Some ''S123''\<rparr>\<rparr>))
       = Some ScanBothCodes
   \<and> handleSave (quietEnv\<lparr>check_reply := (\<lambda>uc. (None, Some notAnswered)),
                          insert_reply := (\<lambda>r. Some uniqueViolation)\<rparr>) pairWorld
       = pairWorld\<lparr>error := Some CloudSendFailed,
           requests := [SelectByUniqueCode ''S123'', Annotate ''P1'' ''S123'',
                        Insert \<lparr>row_id = ''u1'', part_number = ''P1'', unique_code = ''S123'',
                                row_timestamp = ''2024-01-01T00:00:00.000Z'',
                                row_analysis = Some ''Verification complete.''\<rparr>]\<rparr>"
  by (simp add: save_defs sample_defs)

subsection \<open>The insert refused for uniqueness\<close>

text \<open>
  Claim C3 asks that an insert refused for the uniqueness constraint be reported as the
  duplicate found by the query is. The handler of App.tsx does not look at the error of
  the insert: line 239 throws it and the \<^verbatim>\<open>catch\<close> of lines 252-254 sets the generic
  message. Evaluated on the scanned pair: the outcome for the error with code 23505 is
  the outcome for a request that was not answered, its message is the generic one, and
  the message for a duplicate found by the query is another. The session is kept.
\<close>

theorem unique_violation_reported_as_generic_failure:
  "handleSave (quietEnv\<lparr>insert_reply := (\<lambda>r. Some uniqueViolation)\<rparr>) pairWorld
     = handleSave (quietEnv\<lparr>insert_reply := (\<lambda>r. Some notAnswered)\<rparr>) pairWorld
   \<and> error (handleSave (quietEnv\<lparr>insert_reply := (\<lambda>r. Some uniqueViolation)\<rparr>) pairWorld)
       = Some CloudSendFailed
   \<and> session (handleSave (quietEnv\<lparr>insert_reply := (\<lambda>r. Some uniqueViolation)\<rparr>) pairWorld)
       = pairSession
   \<and> error (handleSave (quietEnv\<lparr>check_reply := store_find [storedRow]\<rparr>) pairWorld)
       = Some DuplicateCode"
  by (simp add: save_defs sample_defs)

subsection \<open>A save in flight\<close>

text \<open>
  Claim C4, as the component has it. An invocation of the handler that gets past the
  guard sets \<open>isAnalyzing\<close> before its first \<^verbatim>\<open>await\<close>, and no stretch of it that ends
  suspended changes the flag. While the flag is set the Save button is disabled: a
  click on it changes nothing and sends nothing.
\<close>

theorem save_button_guard:
  "(snd (handleSave_enter w) \<noteq> None \<longrightarrow> isAnalyzing (fst (handleSave_enter w)))
   \<and> (snd (handleSave_resume e k w) \<noteq> None \<longrightarrow>
        isAnalyzing (fst (handleSave_resume e k w)) = isAnalyzing w)
   \<and> (isAnalyzing w \<longrightarrow> clickSave e' w = w)"
  by (auto simp: handleSave_enter_def handleSave_resume_def clickSave_def saveDisabled_def
      send_def Let_def split: suspended.splits option.splits sum.splits)

theorem save_button_guard_witness:
  "isAnalyzing (fst (handleSave_enter pairWorld))
   \<and> clickSave quietEnv (fst (handleSave_enter pairWorld)) = fst (handleSave_enter pairWorld)
   \<and> requests (clickSave quietEnv (fst (handleSave_enter pairWorld))) = []"
  using save_button_guard [of pairWorld quietEnv "AwaitCheck ''P1'' ''S123''" quietEnv]
    save_button_guard
      [of "fst (handleSave_enter pairWorld)" quietEnv "AwaitCheck ''P1'' ''S123''" quietEnv]
  by (simp add: handleSave_enter_def sample_defs)

text \<open>
  The handler itself does not test the flag. Entered a second time while the first
  invocation is suspended with the flag set, it is not turned away; with the answers
  delivered in turn, both invocations send their duplicate query, their annotation
  request and their insert of the same pair (here the store refuses the second insert).
  Called in a state where the flag is set, it runs to the insert.
\<close>

theorem raw_second_invocation_runs:
  "isAnalyzing (fst (handleSave_enter pairWorld))
   \<and> snd (handleSave_enter (fst (handleSave_enter pairWorld))) = Some (AwaitCheck ''P1'' ''S123'')
   \<and> requests (shared (doubleInvocation quietEnv
         (quietEnv\<lparr>ids := RandomUUID ''u2'', insert_reply := (\<lambda>r. Some uniqueViolation)\<rparr>)
         [First, Second, First, Second, First, Second] pairWorld))
     = [SelectByUniqueCode ''S123'', SelectByUniqueCode ''S123'',
        Annotate ''P1'' ''S123'', Annotate ''P1'' ''S123'',
        Insert \<lparr>row_id = ''u1'', part_number = ''P1'', unique_code = ''S123'',
                row_timestamp = ''2024-01-01T00:00:00.000Z'',
                row_analysis = Some ''Verification complete.''\<rparr>,
        Insert \<lparr>row_id = ''u2'', part_number = ''P1'', unique_code = ''S123'',
                row_timestamp = ''2024-01-01T00:00:00.000Z'',
                row_analysis = Some ''Verification complete.''\<rparr>]
   \<and> sent_since (pairWorld\<lparr>isAnalyzing := True\<rparr>)
        (handleSave quietEnv (pairWorld\<lparr>isAnalyzing := True\<rparr>))
     = [SelectByUniqueCode ''S123'', Annotate ''P1'' ''S123'',
        Insert \<lparr>row_id = ''u1'', part_number = ''P1'', unique_code = ''S123'',
                row_timestamp = ''2024-01-01T00:00:00.000Z'',
                row_analysis = Some ''Verification complete.''\<rparr>]"
  by (simp add: doubleInvocation_def deliver_def handleSave_enter_def handleSave_resume_def
      save_defs sample_defs sent_since_def)

subsection \<open>The annotation\<close>

text \<open>
  Claim C5. For every pair of codes and whatever the annotation model does,
  \<open>analyzeScanPair\<close> returns a string and throws nothing; when the model throws, the
  string is the constant \<open>Verification complete.\<close> of line 23. A save whose annotation
  call throws ends as the save whose annotation model answers that constant does; where
  the duplicate query finds nothing and the insert is acknowledged it succeeds, and the
  record saved carries the constant in its \<open>analysis\<close> field.
\<close>

theorem annotation_failure_absorbed:
  "(\<exists>s. analyzeScanPair g pn uc = Inr s)
   \<and> (g pn uc = Inl err \<longrightarrow> analyzeScanPair g pn uc = Inr ''Verification complete.'')
   \<and> (partNumber (session w) = Some pn \<and> uniqueCode (session w) = Some uc
        \<and> generateContent e pn uc = Inl err \<longrightarrow>
          handleSave e w
          = handleSave (e\<lparr>generateContent := (\<lambda>a b. Inr (Some ''Verification complete.''))\<rparr>) w)
   \<and> (partNumber (session w) = Some pn \<and> pn \<noteq> [] \<and> uniqueCode (session w) = Some uc \<and> uc \<noteq> []
        \<and> generateContent e pn uc = Inl err \<and> fst (check_reply e uc) = None
        \<and> insert_reply e (newRecord e pn uc ''Verification complete.'') = None \<longrightarrow>
          error (handleSave e w) = None \<and> success (handleSave e w) = Some SavedOk
          \<and> records (handleSave e w) =
              \<lparr>rec_id = generateId (ids e), rec_partNumber = pn, rec_uniqueCode = uc,
               rec_timestamp = clock e, rec_status = synced,
               rec_analysis = Some ''Verification complete.''\<rparr> # records w
          \<and> last (requests (handleSave e w)) = Insert (newRecord e pn uc ''Verification complete.''))"
  by (auto simp: save_defs analyzeScanPair_def or_else_def newRecord_def falsy_def
      split: sum.splits option.splits)

theorem annotation_failure_absorbed_witness:
  "generateContent quietEnv ''P1'' ''S123'' = Inl \<lparr>err_name = ''Error'', err_message = None\<rparr>
   \<and> analyzeScanPair (generateContent quietEnv) ''P1'' ''S123'' = Inr ''Verification complete.''
   \<and> success (handleSave quietEnv pairWorld) = Some SavedOk
   \<and> map rec_analysis (records (handleSave quietEnv pairWorld)) = [Some ''Verification complete.'']"
  using annotation_failure_absorbed
    [where g = "generateContent quietEnv" and pn = "''P1''" and uc = "''S123''"
       and err = "\<lparr>err_name = ''Error'', err_message = None\<rparr>" and w = pairWorld and e = quietEnv]
  by (simp add: save_defs sample_defs or_else_def)

subsection \<open>The guard on an incomplete session\<close>

text \<open>
  Claim C6. When a slot of the session is null or the empty string, the handler only
  sets the message of line 205 and returns: the state is otherwise unchanged and no
  request at all is sent (no duplicate query, no annotation, no insert).
\<close>

theorem incomplete_session_rejected:
  "falsy (partNumber (session w)) \<or> falsy (uniqueCode (session w)) \<Longrightarrow>
     handleSave e w = w\<lparr>error := Some ScanBothCodes\<rparr>
     \<and> error (handleSave e w) = Some ScanBothCodes
     \<and> sent_since w (handleSave e w) = []"
  by (simp add: handleSave_def sent_since_def)

theorem incomplete_session_rejected_witness:
  "falsy (partNumber (session (initial\<lparr>session := \<lparr>partNumber = Some [], uniqueCode = Some ''S123''\<rparr>\<rparr>)))
   \<and> error (handleSave quietEnv (initial\<lparr>session := \<lparr>partNumber = Some [], uniqueCode = Some ''S123''\<rparr>\<rparr>))
       = Some ScanBothCodes
   \<and> requests (handleSave quietEnv (initial\<lparr>session := \<lparr>partNumber = Some [], uniqueCode = Some ''S123''\<rparr>\<rparr>))
       = []"
  using incomplete_session_rejected
    [of "initial\<lparr>session := \<lparr>partNumber = Some [], uniqueCode = Some ''S123''\<rparr>\<rparr>" quietEnv]
  by (simp add: sample_defs)

subsection \<open>A decoded text\<close>

text \<open>
  Claim C7 asks that on each decode the trimmed text goes to the slot of the target the
  decoder was started for, that the other slot stays, and that scanning then stops. The
  callback does write the trimmed text to the slot of its own start and to no other,
  but it stops the decoder held in \<^verbatim>\<open>scannerRef\<close>, which need not be the one that
  decoded: \<^verbatim>\<open>startScanner\<close> does not clear a timer already set. Evaluated on two starts
  inside the timer window (Part Number, then Unique Serial), both timers firing, and a
  text decoded by the first decoder: the text is in the part-number slot, \<open>isScanning\<close>
  is false, and the first decoder is still running. The same holds when the second
  decoder decodes, and when the second start fails. One start alone ends with no
  decoder running.
\<close>

theorem second_start_leaves_decoder_running:
  "session (run [Start PART_NUMBER, Start UNIQUE_CODE, TimerFires cameraOk, TimerFires cameraOk,
                 Decode 0 '' X ''] initial)
     = \<lparr>partNumber = Some ''X'', uniqueCode = None\<rparr>
   \<and> map running (decoders (run [Start PART_NUMBER, Start UNIQUE_CODE, TimerFires cameraOk,
                 TimerFires cameraOk, Decode 0 '' X ''] initial)) = [True, False]
   \<and> isScanning (run [Start PART_NUMBER, Start UNIQUE_CODE, TimerFires cameraOk,
                 TimerFires cameraOk, Decode 0 '' X ''] initial) = False
   \<and> map running (decoders (run [Start PART_NUMBER, Start UNIQUE_CODE, TimerFires cameraOk,
                 TimerFires cameraOk, Decode 1 '' X ''] initial)) = [True, False]
   \<and> map running (decoders (run [Start PART_NUMBER, Start UNIQUE_CODE, TimerFires cameraOk,
                 TimerFires cameraBusy, Decode 0 '' X ''] initial)) = [True, False]
   \<and> map running (decoders (run [Start PART_NUMBER, TimerFires cameraOk, Decode 0 '' X ''] initial))
     = [False]"
  by (simp add: run_def startScanner_def timerFires_def stopScanner_def stopDecoder_def
      onDecode_def decodeCallback_def setSlot_def Let_def cameraOk_def cameraBusy_def
      initial_def emptySession_def trim_def isWhiteSpace_def cameraNotice_def)

subsection \<open>The commit\<close>

text \<open>
  Claim C8. When both slots hold non-empty codes, the duplicate query finds nothing and
  the insert is acknowledged, the handler ends in exactly this state: the new record
  (the generated identifier, the two codes of the session, the captured time, the
  analysis text, status \<open>synced\<close>) stands in front of the history, both slots of the
  session are null, the success message of line 251 is set; besides, the error cell is
  null, \<open>isAnalyzing\<close> is false, and the three requests have been sent in order.
\<close>

theorem commit_after_insert:
  assumes "partNumber (session w) = Some pn" and "pn \<noteq> []"
      and "uniqueCode (session w) = Some uc" and "uc \<noteq> []"
      and "fst (check_reply e uc) = None"
      and "analyzeScanPair (generateContent e) pn uc = Inr analysis"
      and "insert_reply e (newRecord e pn uc analysis) = None"
  shows "handleSave e w =
           w\<lparr>records :=
               \<lparr>rec_id = generateId (ids e), rec_partNumber = pn, rec_uniqueCode = uc,
                rec_timestamp = clock e, rec_status = synced, rec_analysis = Some analysis\<rparr>
               # records w,
             session := \<lparr>partNumber = None, uniqueCode = None\<rparr>,
             success := Some SavedOk,
             error := None,
             isAnalyzing := False,
             requests := requests w @
               [SelectByUniqueCode uc, Annotate pn uc, Insert (newRecord e pn uc analysis)]\<rparr>"
  using assms by (simp add: save_defs falsy_def newRecord_def emptySession_def)

theorem commit_after_insert_witness:
  "handleSave quietEnv pairWorld =
     initial\<lparr>records :=
               [\<lparr>rec_id = ''u1'', rec_partNumber = ''P1'', rec_uniqueCode = ''S123'',
                 rec_timestamp = ''2024-01-01T00:00:00.000Z'', rec_status = synced,
                 rec_analysis = Some ''Verification complete.''\<rparr>],
             success := Some SavedOk,
             requests :=
               [SelectByUniqueCode ''S123'', Annotate ''P1'' ''S123'',
                Insert \<lparr>row_id = ''u1'', part_number = ''P1'', unique_code = ''S123'',
                        row_timestamp = ''2024-01-01T00:00:00.000Z'',
                        row_analysis = Some ''Verification complete.''\<rparr>]\<rparr>"
  using commit_after_insert
    [of pairWorld "''P1''" "''S123''" quietEnv "''Verification complete.''"]
  by (simp add: sample_defs)

subsection \<open>The export\<close>

text \<open>
  Claim C9, as the handler has it. When writing the file does not throw, the export
  writes one file named \<open>XtraPro_Report_\<close>, the part of the current ISO time before its
  \<open>T\<close> (the date), \<open>.xlsx\<close>, with one sheet \<open>Scanned Records\<close>. The sheet has one data
  row per record of the history, in order, each with the part number, the serial, the
  local form of the time stamp and the analysis; for a history that is not empty its
  header is Part Number, Unique Serial, Date and Time (written \<open>Date & Time\<close>),
  Verification, in that order, and for the empty history it has no header and no row.
  The file is a function of the history, the clock and the locale; the export sends no
  request, leaves the history as it is and sets no error message.
\<close>

theorem export_sheet:
  "(\<not> writeFile_throws e \<longrightarrow>
      snd (exportToExcel e w) =
        Some \<lparr>filename = ''XtraPro_Report_'' @ beforeT (nowISO e) @ ''.xlsx'',
              book = [(''Scanned Records'',
                \<lparr>header = (if records w = [] then []
                            else [''Part Number'', ''Unique Serial'', ''Date & Time'', ''Verification'']),
                 body = map (\<lambda>r. [Some (rec_partNumber r), Some (rec_uniqueCode r),
                                    Some (toLocaleString e (rec_timestamp r)), rec_analysis r])
                          (records w)\<rparr>)]\<rparr>
      \<and> error (fst (exportToExcel e w)) = error w)
   \<and> length (body (json_to_sheet (map (exportRow e) (records w)))) = length (records w)
   \<and> (CHR ''T'' \<notin> set d \<longrightarrow> beforeT (d @ CHR ''T'' # rest) = d)
   \<and> requests (fst (exportToExcel e w)) = requests w
   \<and> records (fst (exportToExcel e w)) = records w"
proof -
  have "json_to_sheet (map (exportRow e) (records w))
          = \<lparr>header = header (json_to_sheet (map (exportRow e) (records w))),
             body = body (json_to_sheet (map (exportRow e) (records w)))\<rparr>"
    by simp
  then have ws: "json_to_sheet (map (exportRow e) (records w))
          = \<lparr>header = (if records w = [] then [] else exportColumns),
             body = map (\<lambda>r. [Some (rec_partNumber r), Some (rec_uniqueCode r),
                                Some (toLocaleString e (rec_timestamp r)), rec_analysis r])
                      (records w)\<rparr>"
    by (simp only: header_of_export body_of_export)
  show ?thesis
    by (simp add: exportToExcel_def Let_def ws book_new_def book_append_sheet_def
        exportColumns_def beforeT_date)
qed

theorem export_sheet_witness:
  "snd (exportToExcel sampleExport (initial\<lparr>records := [sampleRecord]\<rparr>)) =
     Some \<lparr>filename = ''XtraPro_Report_2024-03-05.xlsx'',
           book = [(''Scanned Records'',
             \<lparr>header = [''Part Number'', ''Unique Serial'', ''Date & Time'', ''Verification''],
              body = [[Some ''P1'', Some ''S123'', Some ''1/1/2024, 12:00:00 AM'',
                       Some ''Verification complete.'']]\<rparr>)]\<rparr>
   \<and> snd (exportToExcel sampleExport initial) =
     Some \<lparr>filename = ''XtraPro_Report_2024-03-05.xlsx'',
           book = [(''Scanned Records'', \<lparr>header = [], body = []\<rparr>)]\<rparr>"
  using export_sheet
      [of sampleExport "initial\<lparr>records := [sampleRecord]\<rparr>" "''2024-03-05''" "''10:11:12.000Z''"]
    export_sheet [of sampleExport initial "''2024-03-05''" "''10:11:12.000Z''"]
  by (simp add: sampleExport_def sampleRecord_def initial_def beforeT_def)

text \<open>
  The columns the claim first named, Timestamp, Part Number, Unique Serial, Analysis,
  are not the columns of the sheet: for a history of one record the header is the one
  above, with the time in the third column.
\<close>

theorem export_columns_differ:
  "header (snd (hd (book (the (snd (exportToExcel sampleExport (initial\<lparr>records := [sampleRecord]\<rparr>)))))))
     = [''Part Number'', ''Unique Serial'', ''Date & Time'', ''Verification'']
   \<and> header (snd (hd (book (the (snd (exportToExcel sampleExport (initial\<lparr>records := [sampleRecord]\<rparr>)))))))
     \<noteq> [''Timestamp'', ''Part Number'', ''Unique Serial'', ''Analysis'']"
  by (simp add: exportToExcel_def json_to_sheet_def exportRow_def book_new_def book_append_sheet_def
      sampleExport_def sampleRecord_def initial_def Let_def)

subsection \<open>The status of the records of the history\<close>

text \<open>
  Claim C10. Whatever the operator and the outside do from the initial state, every
  record of the in-memory history has the status \<open>synced\<close>. Each single operation keeps
  it so; a fetch that is answered makes a history of \<open>synced\<close> records out of any rows;
  a delete only removes records. So no operation produces the status \<open>pending\<close>.
\<close>

theorem history_records_synced:
  "(\<forall>r \<in> set (records (run acts initial)). rec_status r = synced)
   \<and> ((\<forall>r \<in> set (records w). rec_status r = synced) \<longrightarrow>
        (\<forall>r \<in> set (records (step w a)). rec_status r = synced))
   \<and> (\<forall>r \<in> set (records (fetchRecords (Some rows, None) w)). rec_status r = synced)
   \<and> set (records (handleDelete d rid w)) \<subseteq> set (records w)"
proof -
  have "allSynced initial" by (simp add: allSynced_def initial_def)
  then have "allSynced (run acts initial)"
    unfolding run_def by (rule foldl_allSynced)
  moreover have "allSynced w \<Longrightarrow> allSynced (step w a)" by (rule step_allSynced)
  moreover have "\<forall>r \<in> set (records (fetchRecords (Some rows, None) w)). rec_status r = synced"
    by (simp add: fetchRecords_def send_def toScannedRecord_def)
  moreover have "set (records (handleDelete d rid w)) \<subseteq> set (records w)"
    by (auto simp: handleDelete_def send_def Let_def split: option.splits)
  ultimately show ?thesis
    by (simp add: allSynced_def list_all_iff)
qed

theorem history_records_synced_witness:
  "map rec_status (records (run sampleRun initial)) = [synced, synced]
   \<and> map rec_uniqueCode (records (run sampleRun initial)) = [''S124'', ''S123'']"
  using history_records_synced [of sampleRun initial "Fetch (None, None)" "[]"
         "\<lparr>confirmed = True, delete_reply = (\<lambda>rid. None)\<rparr>" "''u0''"]
  by (simp add: run_def sampleRun_def cameraOk_def fetchRecords_def toScannedRecord_def
      startScanner_def timerFires_def stopScanner_def stopDecoder_def onDecode_def
      decodeCallback_def setSlot_def trim_def
      isWhiteSpace_def save_defs sample_defs)

end
